theory Spec2Isabelle
  imports Complex_Main
begin

section \<open>The adaptive routing workflow of \<^verbatim>\<open>app.py\<close>\<close>

subsection \<open>Values, documents and exceptions\<close>

text \<open>
  A Python exception is carried as the text that \<^verbatim>\<open>str(e)\<close> gives. Every call that can
  raise returns a sum, with \<open>Inl\<close> for the exception.
\<close>

datatype exc = Exc string

fun str_exc :: "exc \<Rightarrow> string" where
  "str_exc (Exc m) = m"

text \<open>The langchain \<^verbatim>\<open>Document\<close>: its text and its metadata.\<close>

record document =
  page_content :: string
  metadata :: "(string \<times> string) list"

definition Document :: "string \<Rightarrow> document" where
  "Document text = \<lparr>page_content = text, metadata = []\<rparr>"

text \<open>\<^verbatim>\<open>RouteQuery\<close>: the structured output of the routing model.\<close>

record RouteQuery =
  datasource :: string

text \<open>
  \<^verbatim>\<open>GraphState\<close> is a dictionary with the keys question, generation, documents and route;
  a key that is absent is \<open>None\<close>. Node functions return dictionaries of the same shape.
\<close>

record GraphState =
  gs_question :: "string option"
  gs_generation :: "string option"
  gs_documents :: "document list option"
  gs_route :: "string option"

definition empty_state :: GraphState where
  "empty_state = \<lparr>gs_question = None, gs_generation = None, gs_documents = None, gs_route = None\<rparr>"

text \<open>\<^verbatim>\<open>state["question"]\<close>: a missing key raises \<^verbatim>\<open>KeyError\<close>.\<close>

definition get_question :: "GraphState \<Rightarrow> exc + string" where
  "get_question state =
     (case gs_question state of None \<Rightarrow> Inl (Exc ''KeyError: question'') | Some q \<Rightarrow> Inr q)"

definition get_documents :: "GraphState \<Rightarrow> exc + document list" where
  "get_documents state =
     (case gs_documents state of None \<Rightarrow> Inl (Exc ''KeyError: documents'') | Some d \<Rightarrow> Inr d)"

subsection \<open>The external providers and the workflow object\<close>

text \<open>
  A compiled \<^verbatim>\<open>StateGraph\<close>: the node functions by name, the conditional edges from
  \<^verbatim>\<open>START\<close> (a path function and the map from its labels to node names) and the plain
  edges.
\<close>

record StateGraph =
  nodes :: "(string \<times> (GraphState \<Rightarrow> exc + GraphState)) list"
  conditional_entry :: "GraphState \<Rightarrow> exc + string"
  path_map :: "(string \<times> string) list"
  edges :: "(string \<times> string) list"

text \<open>
  The workflow object holds the four external calls: the routing chain, the generation
  chain (given the context and the question), the vector store retriever and the Wikipedia
  tool. Each returns its value or raises an \<^verbatim>\<open>Exception\<close>. Its attribute \<^verbatim>\<open>app\<close> is
  \<^verbatim>\<open>None\<close> until \<^verbatim>\<open>build_graph\<close> has run.
\<close>

record workflow =
  question_router :: "string \<Rightarrow> exc + RouteQuery"
  generation_chain :: "string \<Rightarrow> string \<Rightarrow> exc + string"
  retriever :: "string \<Rightarrow> exc + document list"
  wiki :: "string \<Rightarrow> exc + string"
  app :: "StateGraph option"

subsection \<open>\<^verbatim>\<open>IntelligentRouter\<close>\<close>

definition route :: "workflow \<Rightarrow> string \<Rightarrow> exc + string" where
  "route w question =
     (case question_router w question of
        Inl e \<Rightarrow> Inl e
      | Inr result \<Rightarrow> Inr (datasource result))"

text \<open>Python's \<^verbatim>\<open>str\<close> of a natural number: its decimal digits.\<close>

definition digit_char :: "nat \<Rightarrow> char" where
  "digit_char d = char_of (48 + d)"

fun str_nat :: "nat \<Rightarrow> string" where
  "str_nat n = (if n < 10 then [digit_char n] else str_nat (n div 10) @ [digit_char (n mod 10)])"

text \<open>\<^verbatim>\<open>sep.join(parts)\<close>.\<close>

fun join :: "string \<Rightarrow> string list \<Rightarrow> string" where
  "join sep [] = []"
| "join sep [x] = x"
| "join sep (x # y # ys) = x @ sep @ join sep (y # ys)"

definition newline :: string where
  "newline = [CHR 0x0A]"

text \<open>The f-string \<^verbatim>\<open>f"Document {i+1}:\n{doc.page_content}"\<close>.\<close>

definition format_document :: "nat \<times> document \<Rightarrow> string" where
  "format_document p =
     (case p of (i, doc) \<Rightarrow> ''Document '' @ str_nat (i + 1) @ '':'' @ newline @ page_content doc)"

text \<open>
  The argument \<^verbatim>\<open>documents\<close> of \<^verbatim>\<open>generate_response\<close>: a list of documents, a single
  object with a \<^verbatim>\<open>page_content\<close>, or any other value (given by its \<^verbatim>\<open>str\<close>).
\<close>

datatype documents_arg = DocList "document list" | SingleDoc document | OtherValue string

fun format_context :: "documents_arg \<Rightarrow> string" where
  "format_context (DocList documents) =
     join (newline @ newline) (map format_document (enumerate 0 (take 5 documents)))"
| "format_context (SingleDoc d) = page_content d"
| "format_context (OtherValue s) = s"

definition generate_response :: "workflow \<Rightarrow> string \<Rightarrow> documents_arg \<Rightarrow> exc + string" where
  "generate_response w question documents =
     generation_chain w (format_context documents) question"

subsection \<open>The nodes of \<^verbatim>\<open>AdaptiveRAGWorkflow\<close>\<close>

definition retrieve :: "workflow \<Rightarrow> GraphState \<Rightarrow> exc + GraphState" where
  "retrieve w state =
     (case get_question state of
        Inl e \<Rightarrow> Inl e
      | Inr question \<Rightarrow>
          (case retriever w question of
             Inl e \<Rightarrow> Inl e
           | Inr documents \<Rightarrow>
               Inr \<lparr>gs_question = Some question, gs_generation = None,
                    gs_documents = Some documents, gs_route = Some ''vectorstore''\<rparr>))"

definition wiki_placeholder :: "exc \<Rightarrow> string" where
  "wiki_placeholder e =
     ''Wikipedia search returned no results for this query. Error: '' @ str_exc e"

definition wiki_search :: "workflow \<Rightarrow> GraphState \<Rightarrow> exc + GraphState" where
  "wiki_search w state =
     (case get_question state of
        Inl e \<Rightarrow> Inl e
      | Inr question \<Rightarrow>
          (let wiki_results =
                 (case wiki w question of
                    Inr docs \<Rightarrow> Document docs
                  | Inl e \<Rightarrow> Document (wiki_placeholder e))
           in Inr \<lparr>gs_question = Some question, gs_generation = None,
                   gs_documents = Some [wiki_results], gs_route = Some ''wikipedia''\<rparr>))"

definition generate :: "workflow \<Rightarrow> GraphState \<Rightarrow> exc + GraphState" where
  "generate w state =
     (case get_question state of
        Inl e \<Rightarrow> Inl e
      | Inr question \<Rightarrow>
          (case get_documents state of
             Inl e \<Rightarrow> Inl e
           | Inr documents \<Rightarrow>
               (case generate_response w question (DocList documents) of
                  Inl e \<Rightarrow> Inl e
                | Inr generation \<Rightarrow>
                    Inr \<lparr>gs_question = Some question, gs_generation = Some generation,
                         gs_documents = Some documents,
                         gs_route = Some (case gs_route state of None \<Rightarrow> ''unknown'' | Some r \<Rightarrow> r)\<rparr>)))"

definition route_question :: "workflow \<Rightarrow> GraphState \<Rightarrow> exc + string" where
  "route_question w state =
     (case get_question state of
        Inl e \<Rightarrow> Inl e
      | Inr question \<Rightarrow>
          (case route w question of
             Inl e \<Rightarrow> Inl e
           | Inr source \<Rightarrow>
               (if source = ''wiki_search'' then Inr ''wiki_search'' else Inr ''vectorstore'')))"

subsection \<open>The graph and its execution\<close>

definition END :: string where
  "END = ''__end__''"

text \<open>
  \<^verbatim>\<open>build_graph\<close> registers the three nodes, the conditional edges from \<^verbatim>\<open>START\<close> and the
  edges to \<^verbatim>\<open>generate\<close> and \<^verbatim>\<open>END\<close>, and stores the compiled graph in \<^verbatim>\<open>app\<close>.
\<close>

definition build_graph :: "workflow \<Rightarrow> workflow" where
  "build_graph w =
     w\<lparr>app := Some
        \<lparr>nodes = [(''wiki_search'', wiki_search w), (''retrieve'', retrieve w),
                  (''generate'', generate w)],
         conditional_entry = route_question w,
         path_map = [(''wiki_search'', ''wiki_search''), (''vectorstore'', ''retrieve'')],
         edges = [(''retrieve'', ''generate''), (''wiki_search'', ''generate''),
                  (''generate'', END)]\<rparr>\<rparr>"

text \<open>
  What \<^verbatim>\<open>app.stream(inputs)\<close> does, as far as \<^verbatim>\<open>execute\<close> observes it: the updates
  yielded so far, one per finished node, the nodes that were entered, and the exception
  that ended the run, if any. The executor is the graph library's: it calls the path
  function on the inputs, looks its label up in the path map, then runs node after node
  along the edges until \<^verbatim>\<open>END\<close>, writing each node's update over the state, key by key,
  and gives up after \<open>recursion_limit\<close> steps.
\<close>

record stream_result =
  outputs :: "(string \<times> GraphState) list"
  visited :: "string list"
  raised :: "exc option"

definition merge_state :: "GraphState \<Rightarrow> GraphState \<Rightarrow> GraphState" where
  "merge_state state update =
     \<lparr>gs_question = (case gs_question update of None \<Rightarrow> gs_question state | Some v \<Rightarrow> Some v),
      gs_generation = (case gs_generation update of None \<Rightarrow> gs_generation state | Some v \<Rightarrow> Some v),
      gs_documents = (case gs_documents update of None \<Rightarrow> gs_documents state | Some v \<Rightarrow> Some v),
      gs_route = (case gs_route update of None \<Rightarrow> gs_route state | Some v \<Rightarrow> Some v)\<rparr>"

definition recursion_limit :: nat where
  "recursion_limit = 25"

fun run_nodes :: "StateGraph \<Rightarrow> nat \<Rightarrow> string \<Rightarrow> GraphState \<Rightarrow> stream_result" where
  "run_nodes g 0 name state =
     \<lparr>outputs = [], visited = [],
      raised = (if name = END then None else Some (Exc ''GraphRecursionError''))\<rparr>"
| "run_nodes g (Suc limit) name state =
     (if name = END then \<lparr>outputs = [], visited = [], raised = None\<rparr>
      else
        (case map_of (nodes g) name of
           None \<Rightarrow> \<lparr>outputs = [], visited = [], raised = Some (Exc (''KeyError: '' @ name))\<rparr>
         | Some node \<Rightarrow>
             (case node state of
                Inl e \<Rightarrow> \<lparr>outputs = [], visited = [name], raised = Some e\<rparr>
              | Inr update \<Rightarrow>
                  (case map_of (edges g) name of
                     None \<Rightarrow> \<lparr>outputs = [(name, update)], visited = [name], raised = None\<rparr>
                   | Some target \<Rightarrow>
                       (let rest = run_nodes g limit target (merge_state state update)
                        in \<lparr>outputs = (name, update) # outputs rest,
                            visited = name # visited rest,
                            raised = raised rest\<rparr>)))))"

definition stream :: "StateGraph \<Rightarrow> GraphState \<Rightarrow> stream_result" where
  "stream g inputs =
     (case conditional_entry g inputs of
        Inl e \<Rightarrow> \<lparr>outputs = [], visited = [], raised = Some e\<rparr>
      | Inr label \<Rightarrow>
          (case map_of (path_map g) label of
             None \<Rightarrow> \<lparr>outputs = [], visited = [], raised = Some (Exc (''KeyError: '' @ label))\<rparr>
           | Some name \<Rightarrow> run_nodes g recursion_limit name inputs))"

text \<open>
  The dictionary that \<^verbatim>\<open>execute\<close> returns maps its keys to Python values.
\<close>

datatype pyval = PyNone | PyStr string | PyDocs "document list" | PyInt int | PyFloat real

type_synonym result = "string \<rightharpoonup> pyval"

definition initial_result :: result where
  "initial_result =
     [''route'' \<mapsto> PyNone, ''documents'' \<mapsto> PyDocs [], ''generation'' \<mapsto> PyStr [],
      ''execution_time'' \<mapsto> PyInt 0]"

text \<open>The body of the loop over one yielded \<^verbatim>\<open>{key: value}\<close>.\<close>

definition apply_output :: "result \<Rightarrow> string \<times> GraphState \<Rightarrow> result" where
  "apply_output result kv =
     (case kv of (key, val) \<Rightarrow>
        if key = ''generate'' then
          result(''generation'' \<mapsto> PyStr (case gs_generation val of None \<Rightarrow> [] | Some g \<Rightarrow> g),
                 ''route'' \<mapsto> PyStr (case gs_route val of None \<Rightarrow> ''unknown'' | Some r \<Rightarrow> r),
                 ''documents'' \<mapsto> PyDocs (case gs_documents val of None \<Rightarrow> [] | Some d \<Rightarrow> d))
        else if key = ''retrieve'' \<or> key = ''wiki_search'' then
          result(''route'' \<mapsto> PyStr (case gs_route val of None \<Rightarrow> key | Some r \<Rightarrow> r),
                 ''documents'' \<mapsto> PyDocs (case gs_documents val of None \<Rightarrow> [] | Some d \<Rightarrow> d))
        else result)"

definition no_app_message :: string where
  "no_app_message =
     [CHR 0x27] @ ''NoneType'' @ [CHR 0x27] @ '' object has no attribute ''
       @ [CHR 0x27] @ ''stream'' @ [CHR 0x27]"

text \<open>The run of the graph inside the \<^verbatim>\<open>try\<close> block of \<^verbatim>\<open>execute\<close>.\<close>

definition app_stream :: "workflow \<Rightarrow> string \<Rightarrow> stream_result" where
  "app_stream w question =
     (case app w of
        None \<Rightarrow> \<lparr>outputs = [], visited = [], raised = Some (Exc no_app_message)\<rparr>
      | Some g \<Rightarrow> stream g (empty_state\<lparr>gs_question := Some question\<rparr>))"

text \<open>
  \<^verbatim>\<open>execute\<close>, with the two readings of the clock as arguments. The updates yielded
  before an exception have already been written to \<^verbatim>\<open>result\<close> when the handler runs.
\<close>

definition execute :: "workflow \<Rightarrow> string \<Rightarrow> real \<Rightarrow> real \<Rightarrow> result" where
  "execute w question start_time end_time =
     (let s = app_stream w question;
          result = foldl apply_output initial_result (outputs s);
          result = (case raised s of
                      None \<Rightarrow> result
                    | Some e \<Rightarrow>
                        result(''generation'' \<mapsto> PyStr (''Error executing query: '' @ str_exc e),
                               ''route'' \<mapsto> PyStr ''error''))
      in result(''execution_time'' \<mapsto> PyFloat (end_time - start_time)))"

subsection \<open>Stub providers\<close>

text \<open>
  A workflow whose providers ignore the question: each answers with a fixed value or
  raises a fixed exception. The generation stub sees the context only.
\<close>

definition stub_workflow ::
  "(exc + RouteQuery) \<Rightarrow> (string \<Rightarrow> exc + string) \<Rightarrow> (exc + document list) \<Rightarrow> (exc + string)
     \<Rightarrow> workflow" where
  "stub_workflow r g d k =
     \<lparr>question_router = (\<lambda>question. r),
      generation_chain = (\<lambda>context question. g context),
      retriever = (\<lambda>question. d),
      wiki = (\<lambda>question. k),
      app = None\<rparr>"

definition echo_generation :: "string \<Rightarrow> exc + string" where
  "echo_generation context = Inr (''ANSWER:'' @ context)"

definition failing_generation :: "string \<Rightarrow> exc + string" where
  "failing_generation context = Inl (Exc ''generation provider unavailable'')"

definition to_vectorstore :: "exc + RouteQuery" where
  "to_vectorstore = Inr \<lparr>datasource = ''vectorstore''\<rparr>"


definition two_passages :: "exc + document list" where
  "two_passages = Inr [Document ''short term memory'', Document ''long term memory'']"

definition wiki_lookup_error :: "exc + string" where
  "wiki_lookup_error = Inl (Exc ''lookup failed'')"


definition router_unreachable :: "exc + RouteQuery" where
  "router_unreachable = Inl (Exc ''routing provider unreachable'')"

subsection \<open>The shape of a result\<close>

text \<open>
  The four keys of the dictionary of \<^verbatim>\<open>execute\<close> and the kind of value under the first
  three; every pass of the loop keeps it.
\<close>

definition result_shape :: "result \<Rightarrow> bool" where
  "result_shape r \<longleftrightarrow>
     dom r = {''route'', ''documents'', ''generation'', ''execution_time''}
     \<and> (r ''route'' = Some PyNone \<or> (\<exists>s. r ''route'' = Some (PyStr s)))
     \<and> (\<exists>d. r ''documents'' = Some (PyDocs d))
     \<and> (\<exists>g. r ''generation'' = Some (PyStr g))"

section \<open>The backend scaffold\<close>

subsection \<open>The models of \<^verbatim>\<open>schemas.py\<close>\<close>

datatype QuerySource = AUTO | VECTOR | WIKIPEDIA | WEB

text \<open>The \<^verbatim>\<open>value\<close> of a member of the enumeration, and its members in order.\<close>

fun source_value :: "QuerySource \<Rightarrow> string" where
  "source_value AUTO = ''auto''"
| "source_value VECTOR = ''vector''"
| "source_value WIKIPEDIA = ''wikipedia''"
| "source_value WEB = ''web''"

definition query_sources :: "QuerySource list" where
  "query_sources = [AUTO, VECTOR, WIKIPEDIA, WEB]"

record QueryOptions =
  top_k :: int
  temperature :: real
  hyde :: bool

definition default_options :: QueryOptions where
  "default_options = \<lparr>top_k = 5, temperature = 0, hyde = False\<rparr>"

record QueryRequest =
  query :: string
  user_id :: "string option"
  source :: QuerySource
  options :: QueryOptions

record SourceResult =
  source_id :: string
  similarity_score :: real
  snippet :: string
  url :: "string option"

record QueryMetrics =
  elapsed_ms :: int
  tokens :: int
  embedding_ms :: "int option"
  retrieval_ms :: "int option"
  llm_ms :: "int option"

text \<open>
  The field \<^verbatim>\<open>id\<close> of \<^verbatim>\<open>QueryResponse\<close> is \<open>response_id\<close> here, and the field
  \<^verbatim>\<open>environment\<close> of \<^verbatim>\<open>HealthResponse\<close> is \<open>health_environment\<close>.
\<close>

record QueryResponse =
  response_id :: string
  response :: string
  sources :: "SourceResult list"
  metrics :: QueryMetrics
  routing_reason :: string


subsection \<open>Validation of a request body\<close>

text \<open>
  A field of the JSON body as it arrives: absent, present with a value that the type of
  the field does not accept, or present with a value of that type. The checks below are
  the ones that the declarations of \<^verbatim>\<open>QueryRequest\<close> and \<^verbatim>\<open>QueryOptions\<close> ask for
  (\<^verbatim>\<open>min_length\<close>, \<^verbatim>\<open>max_length\<close>, \<^verbatim>\<open>ge\<close>, \<^verbatim>\<open>le\<close>, membership of the enumeration,
  defaults); they run before the handler, and a body that fails any of them is answered
  with status 422.
\<close>

datatype 'a body_field = Missing | Malformed | Given 'a

record raw_query_options =
  raw_top_k :: "int body_field"
  raw_temperature :: "real body_field"
  raw_hyde :: "bool body_field"

record raw_query_request =
  raw_query :: "string body_field"
  raw_user_id :: "string option body_field"
  raw_source :: "string body_field"
  raw_options :: "raw_query_options body_field"

datatype validation_error = ValidationError string string

fun errors_of :: "validation_error list + 'a \<Rightarrow> validation_error list" where
  "errors_of (Inl es) = es"
| "errors_of (Inr v) = []"

fun validate_query :: "string body_field \<Rightarrow> validation_error list + string" where
  "validate_query Missing = Inl [ValidationError ''query'' ''missing'']"
| "validate_query Malformed = Inl [ValidationError ''query'' ''string_type'']"
| "validate_query (Given s) =
     (if length s < 1 then Inl [ValidationError ''query'' ''string_too_short'']
      else if length s > 2000 then Inl [ValidationError ''query'' ''string_too_long'']
      else Inr s)"

fun validate_user_id :: "string option body_field \<Rightarrow> validation_error list + string option" where
  "validate_user_id Missing = Inr None"
| "validate_user_id Malformed = Inl [ValidationError ''user_id'' ''string_type'']"
| "validate_user_id (Given u) = Inr u"

fun validate_source :: "string body_field \<Rightarrow> validation_error list + QuerySource" where
  "validate_source Missing = Inr AUTO"
| "validate_source Malformed = Inl [ValidationError ''source'' ''enum'']"
| "validate_source (Given s) =
     (case find (\<lambda>member. source_value member = s) query_sources of
        None \<Rightarrow> Inl [ValidationError ''source'' ''enum'']
      | Some member \<Rightarrow> Inr member)"

fun validate_top_k :: "int body_field \<Rightarrow> validation_error list + int" where
  "validate_top_k Missing = Inr 5"
| "validate_top_k Malformed = Inl [ValidationError ''options.top_k'' ''int_type'']"
| "validate_top_k (Given k) =
     (if k < 1 then Inl [ValidationError ''options.top_k'' ''greater_than_equal'']
      else if k > 20 then Inl [ValidationError ''options.top_k'' ''less_than_equal'']
      else Inr k)"

fun validate_temperature :: "real body_field \<Rightarrow> validation_error list + real" where
  "validate_temperature Missing = Inr 0"
| "validate_temperature Malformed = Inl [ValidationError ''options.temperature'' ''float_type'']"
| "validate_temperature (Given t) =
     (if t < 0 then Inl [ValidationError ''options.temperature'' ''greater_than_equal'']
      else if t > 2 then Inl [ValidationError ''options.temperature'' ''less_than_equal'']
      else Inr t)"

fun validate_hyde :: "bool body_field \<Rightarrow> validation_error list + bool" where
  "validate_hyde Missing = Inr False"
| "validate_hyde Malformed = Inl [ValidationError ''options.hyde'' ''bool_type'']"
| "validate_hyde (Given b) = Inr b"

fun validate_options :: "raw_query_options body_field \<Rightarrow> validation_error list + QueryOptions" where
  "validate_options Missing = Inr default_options"
| "validate_options Malformed = Inl [ValidationError ''options'' ''model_type'']"
| "validate_options (Given raw) =
     (case (validate_top_k (raw_top_k raw), validate_temperature (raw_temperature raw),
            validate_hyde (raw_hyde raw)) of
        (Inr k, Inr t, Inr h) \<Rightarrow> Inr \<lparr>top_k = k, temperature = t, hyde = h\<rparr>
      | (k, t, h) \<Rightarrow> Inl (errors_of k @ errors_of t @ errors_of h))"

definition validate_request :: "raw_query_request \<Rightarrow> validation_error list + QueryRequest" where
  "validate_request raw =
     (case (validate_query (raw_query raw), validate_user_id (raw_user_id raw),
            validate_source (raw_source raw), validate_options (raw_options raw)) of
        (Inr q, Inr u, Inr s, Inr opts) \<Rightarrow>
          Inr \<lparr>query = q, user_id = u, source = s, options = opts\<rparr>
      | (q, u, s, opts) \<Rightarrow> Inl (errors_of q @ errors_of u @ errors_of s @ errors_of opts))"

subsection \<open>The settings of \<^verbatim>\<open>config.py\<close>\<close>

record Settings =
  app_name :: string
  app_version :: string
  debug :: bool
  environment :: string
  supabase_url :: "string option"
  supabase_anon_key :: "string option"
  supabase_service_role_key :: "string option"
  astra_db_application_token :: "string option"
  astra_db_id :: "string option"
  astra_db_region :: "string option"
  groq_api_key :: "string option"
  huggingface_api_key :: "string option"
  openai_api_key :: "string option"
  s3_endpoint :: "string option"
  s3_access_key :: "string option"
  s3_secret_key :: "string option"
  s3_bucket :: "string option"
  upstash_redis_rest_url :: "string option"
  upstash_redis_rest_token :: "string option"
  jwt_secret :: "string option"
  sentry_dsn :: "string option"
  sendgrid_api_key :: "string option"
  slack_webhook_url :: "string option"

text \<open>The truth value of an optional string: \<^verbatim>\<open>None\<close> and the empty string are false.\<close>

fun truthy :: "string option \<Rightarrow> bool" where
  "truthy None = False"
| "truthy (Some v) = (v \<noteq> [])"

definition get_mock_status :: "Settings \<Rightarrow> (string \<times> bool) list" where
  "get_mock_status self =
     [(''supabase'', \<not> list_all truthy [supabase_url self, supabase_anon_key self]),
      (''astra_db'', \<not> list_all truthy [astra_db_application_token self, astra_db_id self]),
      (''groq'', \<not> truthy (groq_api_key self)),
      (''huggingface'', \<not> truthy (huggingface_api_key self)),
      (''redis'', \<not> list_all truthy [upstash_redis_rest_url self, upstash_redis_rest_token self]),
      (''s3'', \<not> list_all truthy [s3_endpoint self, s3_access_key self, s3_secret_key self])]"

definition env_var_mapping :: "(string \<times> string list) list" where
  "env_var_mapping =
     [(''supabase'', [''SUPABASE_URL'', ''SUPABASE_ANON_KEY'']),
      (''astra_db'', [''ASTRA_DB_APPLICATION_TOKEN'', ''ASTRA_DB_ID'']),
      (''groq'', [''GROQ_API_KEY'']),
      (''huggingface'', [''HUGGINGFACE_API_KEY'']),
      (''redis'', [''UPSTASH_REDIS_REST_URL'', ''UPSTASH_REDIS_REST_TOKEN'']),
      (''s3'', [''S3_ENDPOINT'', ''S3_ACCESS_KEY'', ''S3_SECRET_KEY''])]"

text \<open>
  The process environment at the time of a call: what \<^verbatim>\<open>os.getenv\<close> answers and what the
  constructor \<^verbatim>\<open>Settings()\<close> would return, or raise, if it ran then.
\<close>

record world =
  getenv :: "string \<Rightarrow> string option"
  new_settings :: "exc + Settings"

definition log_mock_mode_warnings :: "Settings \<Rightarrow> world \<Rightarrow> string list" where
  "log_mock_mode_warnings self env =
     concat (map (\<lambda>(service, is_mock).
                if is_mock then
                  map (\<lambda>var. ''MOCK MODE: missing '' @ var)
                    (filter (\<lambda>var. \<not> truthy (getenv env var))
                       (case map_of env_var_mapping service of None \<Rightarrow> [] | Some vars \<Rightarrow> vars))
                else [])
             (get_mock_status self))"

text \<open>
  \<^verbatim>\<open>get_settings\<close> under \<^verbatim>\<open>lru_cache\<close>: the cache of the process is empty or holds the
  one value returned so far; a call that raises stores nothing.
\<close>

definition get_settings :: "world \<Rightarrow> Settings option \<Rightarrow> (exc + Settings) \<times> Settings option" where
  "get_settings env cache =
     (case cache of
        Some settings \<Rightarrow> (Inr settings, cache)
      | None \<Rightarrow>
          (case new_settings env of
             Inl e \<Rightarrow> (Inl e, None)
           | Inr settings \<Rightarrow> (Inr settings, Some settings)))"


subsection \<open>The handlers\<close>

definition MOCK_RESPONSE :: QueryResponse where
  "MOCK_RESPONSE =
     \<lparr>response_id = ''mock-query-0001'',
      response = ''This is a deterministic mock answer from IMSKOS scaffold.'',
      sources = [\<lparr>source_id = ''doc-1'', similarity_score = 92 / 100,
                  snippet = ''Example matched text...'',
                  url = Some ''/storage/docs/doc1.pdf''\<rparr>],
      metrics = \<lparr>elapsed_ms = 75, tokens = 34, embedding_ms = Some 15,
                 retrieval_ms = Some 35, llm_ms = Some 25\<rparr>,
      routing_reason = ''mock: scaffold route to vector (demo)''\<rparr>"

text \<open>Python's \<^verbatim>\<open>int\<close> of a float: truncation towards zero.\<close>

definition py_int :: "real \<Rightarrow> int" where
  "py_int x = (if 0 \<le> x then \<lfloor>x\<rfloor> else \<lceil>x\<rceil>)"

text \<open>
  \<^verbatim>\<open>execute_query\<close>. Besides the request it reads the environment, the hexadecimal digits
  of a fresh UUID and the clock, twice; it returns the response and the warnings it logged,
  or the exception of \<^verbatim>\<open>Settings()\<close>, and the cache of the settings.
\<close>

definition execute_query ::
  "QueryRequest \<Rightarrow> world \<Rightarrow> string \<Rightarrow> real \<Rightarrow> real \<Rightarrow> Settings option
     \<Rightarrow> (exc + QueryResponse \<times> string list) \<times> Settings option" where
  "execute_query request env uuid_hex start_time end_time cache =
     (case get_settings env cache of
        (Inl e, cache') \<Rightarrow> (Inl e, cache')
      | (Inr settings, cache') \<Rightarrow>
          (let warnings = log_mock_mode_warnings settings env;
               query_id = ''query-'' @ take 8 uuid_hex;
               elapsed = py_int ((end_time - start_time) * 1000) + 75
           in (Inr (\<lparr>response_id = query_id,
                      response = response MOCK_RESPONSE,
                      sources = sources MOCK_RESPONSE,
                      metrics = \<lparr>elapsed_ms = elapsed,
                                 tokens = tokens (metrics MOCK_RESPONSE),
                                 embedding_ms = embedding_ms (metrics MOCK_RESPONSE),
                                 retrieval_ms = retrieval_ms (metrics MOCK_RESPONSE),
                                 llm_ms = llm_ms (metrics MOCK_RESPONSE)\<rparr>,
                      routing_reason = ''mock: scaffold route to ''
                        @ source_value (source request) @ '' (demo)''\<rparr>,
                    warnings),
               cache')))"


text \<open>
  The route \<^verbatim>\<open>POST /api/v1/query\<close>: the body is validated first; the handler runs on a
  valid request only.
\<close>

datatype http_result =
  Unprocessable "validation_error list"
| Ok QueryResponse "string list"
| InternalError exc

definition post_query ::
  "raw_query_request \<Rightarrow> world \<Rightarrow> string \<Rightarrow> real \<Rightarrow> real \<Rightarrow> Settings option
     \<Rightarrow> http_result \<times> Settings option" where
  "post_query body env uuid_hex start_time end_time cache =
     (case validate_request body of
        Inl errors \<Rightarrow> (Unprocessable errors, cache)
      | Inr request \<Rightarrow>
          (case execute_query request env uuid_hex start_time end_time cache of
             (Inl e, cache') \<Rightarrow> (InternalError e, cache')
           | (Inr (answer, warnings), cache') \<Rightarrow> (Ok answer warnings, cache')))"

subsection \<open>Sample requests and environments\<close>

definition default_settings :: Settings where
  "default_settings =
     \<lparr>app_name = ''IMSKOS API'', app_version = ''1.1.0'', debug = False,
      environment = ''development'',
      supabase_url = None, supabase_anon_key = None, supabase_service_role_key = None,
      astra_db_application_token = None, astra_db_id = None, astra_db_region = None,
      groq_api_key = None, huggingface_api_key = None, openai_api_key = None,
      s3_endpoint = None, s3_access_key = None, s3_secret_key = None, s3_bucket = None,
      upstash_redis_rest_url = None, upstash_redis_rest_token = None,
      jwt_secret = None, sentry_dsn = None, sendgrid_api_key = None,
      slack_webhook_url = None\<rparr>"

definition bare_world :: world where
  "bare_world = \<lparr>getenv = (\<lambda>var. None), new_settings = Inr default_settings\<rparr>"



definition request_to :: "QuerySource \<Rightarrow> QueryRequest" where
  "request_to s =
     \<lparr>query = ''Test query'', user_id = None, source = s, options = default_options\<rparr>"

definition body_of :: "string body_field \<Rightarrow> string body_field \<Rightarrow> raw_query_request" where
  "body_of q s = \<lparr>raw_query = q, raw_user_id = Missing, raw_source = s, raw_options = Missing\<rparr>"

text \<open>The routing explanation of an answer of the handler, if it answered.\<close>

fun routing_reason_of ::
  "(exc + QueryResponse \<times> string list) \<times> Settings option \<Rightarrow> string option" where
  "routing_reason_of (Inl e, cache) = None"
| "routing_reason_of (Inr (answer, warnings), cache) = Some (routing_reason answer)"

section \<open>Properties of the workflow\<close>

subsection \<open>The runs of the compiled graph\<close>

lemma app_stream_route_raises:
  assumes "route w q = Inl e"
  shows "app_stream (build_graph w) q = \<lparr>outputs = [], visited = [], raised = Some e\<rparr>"
  using assms
  by (simp add: app_stream_def build_graph_def stream_def route_question_def get_question_def
      empty_state_def)

lemma app_stream_vectorstore:
  assumes "route w q = Inr src" "src \<noteq> ''wiki_search''"
  shows "app_stream (build_graph w) q =
     (case retriever w q of
        Inl e \<Rightarrow> \<lparr>outputs = [], visited = [''retrieve''], raised = Some e\<rparr>
      | Inr docs \<Rightarrow>
          (let u = \<lparr>gs_question = Some q, gs_generation = None, gs_documents = Some docs,
                    gs_route = Some ''vectorstore''\<rparr>
           in case generation_chain w (format_context (DocList docs)) q of
                Inl e \<Rightarrow> \<lparr>outputs = [(''retrieve'', u)], visited = [''retrieve'', ''generate''],
                           raised = Some e\<rparr>
              | Inr g \<Rightarrow> \<lparr>outputs = [(''retrieve'', u), (''generate'', u\<lparr>gs_generation := Some g\<rparr>)],
                           visited = [''retrieve'', ''generate''], raised = None\<rparr>))"
  using assms
  by (simp add: app_stream_def build_graph_def stream_def route_question_def get_question_def
      get_documents_def empty_state_def recursion_limit_def eval_nat_numeral END_def
      retrieve_def generate_def generate_response_def merge_state_def Let_def
      split: sum.splits)

lemma app_stream_wiki_search:
  assumes "route w q = Inr ''wiki_search''"
  shows "app_stream (build_graph w) q =
     (let d = (case wiki w q of Inr docs \<Rightarrow> Document docs
               | Inl e \<Rightarrow> Document (wiki_placeholder e));
          u = \<lparr>gs_question = Some q, gs_generation = None, gs_documents = Some [d],
               gs_route = Some ''wikipedia''\<rparr>
      in case generation_chain w (format_context (DocList [d])) q of
           Inl e \<Rightarrow> \<lparr>outputs = [(''wiki_search'', u)], visited = [''wiki_search'', ''generate''],
                      raised = Some e\<rparr>
         | Inr g \<Rightarrow> \<lparr>outputs = [(''wiki_search'', u), (''generate'', u\<lparr>gs_generation := Some g\<rparr>)],
                      visited = [''wiki_search'', ''generate''], raised = None\<rparr>)"
  using assms
  by (simp add: app_stream_def build_graph_def stream_def route_question_def get_question_def
      get_documents_def empty_state_def recursion_limit_def eval_nat_numeral END_def
      wiki_search_def generate_def generate_response_def merge_state_def Let_def
      split: sum.splits)

lemma route_stub [simp]:
  "route (stub_workflow r g d k) q = (case r of Inl e \<Rightarrow> Inl e | Inr x \<Rightarrow> Inr (datasource x))"
  by (simp add: route_def stub_workflow_def)

lemma stub_providers [simp]:
  "question_router (stub_workflow r g d k) q = r"
  "generation_chain (stub_workflow r g d k) c q = g c"
  "retriever (stub_workflow r g d k) q = d"
  "wiki (stub_workflow r g d k) q = k"
  by (simp_all add: stub_workflow_def)

subsection \<open>The result is always well formed\<close>

lemma initial_result_shape: "result_shape initial_result"
  by (auto simp: result_shape_def initial_result_def)

lemma apply_output_shape:
  assumes "result_shape r"
  shows "result_shape (apply_output r kv)"
proof (cases kv)
  case (Pair key val)
  from assms have d: "dom r = {''route'', ''documents'', ''generation'', ''execution_time''}"
    by (simp add: result_shape_def)
  show ?thesis
    using assms unfolding Pair apply_output_def result_shape_def
    by (auto simp: d)
qed

lemma foldl_apply_output_shape:
  "result_shape r \<Longrightarrow> result_shape (foldl apply_output r outs)"
  by (induction outs arbitrary: r) (simp_all add: apply_output_shape)

lemma execute_route_string:
  "\<exists>s. execute (build_graph w) q t0 t1 ''route'' = Some (PyStr s)"
proof (cases "route w q")
  case (Inl e)
  then show ?thesis
    by (simp add: execute_def app_stream_route_raises)
next
  case (Inr src)
  show ?thesis
  proof (cases "src = ''wiki_search''")
    case True
    with Inr have "route w q = Inr ''wiki_search''" by simp
    then show ?thesis
      by (simp add: execute_def app_stream_wiki_search Let_def apply_output_def
          split: sum.splits)
  next
    case False
    with Inr show ?thesis
      by (simp add: execute_def app_stream_vectorstore Let_def apply_output_def
          split: sum.splits)
  qed
qed

text \<open>
  Claim C1. Whatever the providers do, and whether or not the graph was compiled,
  \<^verbatim>\<open>execute\<close> returns a dictionary with exactly the keys route, documents, generation and
  execution_time: a documents list, a generation string and the elapsed time. An exception
  of any stage ends up in the result: the generation is the text
  \<^verbatim>\<open>Error executing query: \<close> followed by the exception and the route is \<^verbatim>\<open>error\<close>. On the
  compiled graph the route is always a string.
\<close>

theorem execute_never_raises:
  "dom (execute w q t0 t1) = {''route'', ''documents'', ''generation'', ''execution_time''}
   \<and> (\<exists>d. execute w q t0 t1 ''documents'' = Some (PyDocs d))
   \<and> (\<exists>g. execute w q t0 t1 ''generation'' = Some (PyStr g))
   \<and> execute w q t0 t1 ''execution_time'' = Some (PyFloat (t1 - t0))
   \<and> (case raised (app_stream w q) of
        None \<Rightarrow> True
      | Some e \<Rightarrow>
          execute w q t0 t1 ''generation'' = Some (PyStr (''Error executing query: '' @ str_exc e))
          \<and> execute w q t0 t1 ''route'' = Some (PyStr ''error''))
   \<and> (\<exists>s. execute (build_graph w) q t0 t1 ''route'' = Some (PyStr s))"
proof -
  have s: "result_shape (foldl apply_output initial_result (outputs (app_stream w q)))"
    by (simp add: foldl_apply_output_shape initial_result_shape)
  then have "dom (execute w q t0 t1) = {''route'', ''documents'', ''generation'', ''execution_time''}
   \<and> (\<exists>d. execute w q t0 t1 ''documents'' = Some (PyDocs d))
   \<and> (\<exists>g. execute w q t0 t1 ''generation'' = Some (PyStr g))
   \<and> execute w q t0 t1 ''execution_time'' = Some (PyFloat (t1 - t0))
   \<and> (case raised (app_stream w q) of
        None \<Rightarrow> True
      | Some e \<Rightarrow>
          execute w q t0 t1 ''generation'' = Some (PyStr (''Error executing query: '' @ str_exc e))
          \<and> execute w q t0 t1 ''route'' = Some (PyStr ''error''))"
    unfolding execute_def Let_def result_shape_def
    by (cases "raised (app_stream w q)") auto
  with execute_route_string [of w q t0 t1] show ?thesis
    by blast
qed

theorem execute_never_raises_witness:
  "execute (build_graph (stub_workflow router_unreachable echo_generation two_passages
      wiki_lookup_error)) ''Who is Elon Musk?'' 2 5 ''execution_time'' = Some (PyFloat 3)
   \<and> execute (build_graph (stub_workflow router_unreachable echo_generation two_passages
      wiki_lookup_error)) ''Who is Elon Musk?'' 2 5 ''route'' = Some (PyStr ''error'')"
proof -
  have r: "raised (app_stream (build_graph (stub_workflow router_unreachable echo_generation
      two_passages wiki_lookup_error)) ''Who is Elon Musk?'')
      = Some (Exc ''routing provider unreachable'')"
    by (simp add: app_stream_route_raises router_unreachable_def)
  show ?thesis
    using execute_never_raises [of "build_graph (stub_workflow router_unreachable
      echo_generation two_passages wiki_lookup_error)" "''Who is Elon Musk?''" 2 5]
    by (simp add: r)
qed

subsection \<open>The routing decision\<close>



subsection \<open>The context of the generation stage\<close>

lemma enumerate_nth_form: "enumerate 0 xs = map (\<lambda>i. (i, xs ! i)) [0..<length xs]"
  by (rule nth_equalityI) (simp_all add: nth_enumerate_eq)

lemma format_context_closed_form:
  "format_context (DocList docs) =
     join (newline @ newline)
       (map (\<lambda>i. ''Document '' @ str_nat (Suc i) @ '':'' @ newline @ page_content (docs ! i))
          [0..<min 5 (length docs)])"
proof -
  have "map format_document (enumerate 0 (take 5 docs)) =
      map (\<lambda>i. ''Document '' @ str_nat (Suc i) @ '':'' @ newline @ page_content (docs ! i))
          [0..<min 5 (length docs)]"
    by (simp add: enumerate_nth_form format_document_def min.commute)
  then show ?thesis by simp
qed

lemma str_nat_digits:
  "str_nat (Suc 0) = ''1''" "str_nat (Suc (Suc 0)) = ''2''" "str_nat (Suc (Suc (Suc 0))) = ''3''"
  "str_nat (Suc (Suc (Suc (Suc 0)))) = ''4''" "str_nat (Suc (Suc (Suc (Suc (Suc 0))))) = ''5''"
  by code_simp+

text \<open>
  Claim C3. The context of the prompt is built from the first five passages of the bundle
  only, in bundle order, the passage at position \<open>i\<close> (from 0) under the label
  \<^verbatim>\<open>Document i+1\<close>; a bundle and its first five passages give the same context. For a
  bundle of eight passages the context is the text of passages 1 to 5 under their labels,
  and this context is what the generation chain receives.
\<close>

theorem generation_context_first_five:
  "format_context (DocList docs) = format_context (DocList (take 5 docs))
   \<and> format_context (DocList docs) =
       join (newline @ newline)
         (map (\<lambda>i. ''Document '' @ str_nat (Suc i) @ '':'' @ newline @ page_content (docs ! i))
            [0..<min 5 (length docs)])
   \<and> format_context (DocList [d1, d2, d3, d4, d5, d6, d7, d8]) =
       ''Document 1:'' @ newline @ page_content d1 @ newline @ newline
       @ ''Document 2:'' @ newline @ page_content d2 @ newline @ newline
       @ ''Document 3:'' @ newline @ page_content d3 @ newline @ newline
       @ ''Document 4:'' @ newline @ page_content d4 @ newline @ newline
       @ ''Document 5:'' @ newline @ page_content d5
   \<and> generate_response w q (DocList docs)
       = generation_chain w (format_context (DocList (take 5 docs))) q"
proof -
  have eight: "format_context (DocList [d1, d2, d3, d4, d5, d6, d7, d8]) =
       ''Document 1:'' @ newline @ page_content d1 @ newline @ newline
       @ ''Document 2:'' @ newline @ page_content d2 @ newline @ newline
       @ ''Document 3:'' @ newline @ page_content d3 @ newline @ newline
       @ ''Document 4:'' @ newline @ page_content d4 @ newline @ newline
       @ ''Document 5:'' @ newline @ page_content d5"
    by (simp add: enumerate_simps format_document_def str_nat_digits del: str_nat.simps)
  have drop: "format_context (DocList docs) = format_context (DocList (take 5 docs))"
    by simp
  show ?thesis
    using eight drop format_context_closed_form [of docs]
    by (simp add: generate_response_def del: format_context.simps)
qed

subsection \<open>Failure of the route classifier\<close>

text \<open>
  Claim C5, amended. When the routing chain raises, the dictionary returned has no key
  \<^verbatim>\<open>error\<close>: the failure is recorded in the generation, which is the text
  \<^verbatim>\<open>Error executing query: \<close> followed by the exception, and in the route, which is
  \<^verbatim>\<open>error\<close>. The documents stay empty and no node of the graph is entered: neither
  retrieval stage nor the generation stage runs.
\<close>

theorem classification_failure:
  assumes "question_router w q = Inl e"
  shows "execute (build_graph w) q t0 t1 =
           [''route'' \<mapsto> PyStr ''error'', ''documents'' \<mapsto> PyDocs [],
            ''generation'' \<mapsto> PyStr (''Error executing query: '' @ str_exc e),
            ''execution_time'' \<mapsto> PyFloat (t1 - t0)]
       \<and> execute (build_graph w) q t0 t1 ''error'' = None
       \<and> visited (app_stream (build_graph w) q) = []"
proof -
  have r: "route w q = Inl e"
    using assms by (simp add: route_def)
  have s: "app_stream (build_graph w) q = \<lparr>outputs = [], visited = [], raised = Some e\<rparr>"
    by (rule app_stream_route_raises [OF r])
  have "execute (build_graph w) q t0 t1 =
           [''route'' \<mapsto> PyStr ''error'', ''documents'' \<mapsto> PyDocs [],
            ''generation'' \<mapsto> PyStr (''Error executing query: '' @ str_exc e),
            ''execution_time'' \<mapsto> PyFloat (t1 - t0)]"
    by (rule ext) (simp add: execute_def s initial_result_def)
  then show ?thesis
    by (simp add: s)
qed

theorem classification_failure_witness:
  "execute (build_graph (stub_workflow router_unreachable echo_generation two_passages
      wiki_lookup_error)) ''What is prompt engineering?'' 1 2 ''generation''
     = Some (PyStr ''Error executing query: routing provider unreachable'')
   \<and> visited (app_stream (build_graph (stub_workflow router_unreachable echo_generation
      two_passages wiki_lookup_error)) ''What is prompt engineering?'') = []"
proof -
  have h: "question_router (stub_workflow router_unreachable echo_generation two_passages
      wiki_lookup_error) ''What is prompt engineering?'' = Inl (Exc ''routing provider unreachable'')"
    by (simp add: router_unreachable_def)
  show ?thesis
    using classification_failure [OF h, of 1 2] by simp
qed

text \<open>
  The claim as stated asks for a non-empty error field; the result of a failed
  classification has none.
\<close>

theorem classification_failure_no_error_field:
  "execute (build_graph (stub_workflow router_unreachable echo_generation two_passages
      wiki_lookup_error)) ''Who is Elon Musk?'' 0 1 ''error'' = None"
  by (simp add: execute_def app_stream_route_raises router_unreachable_def initial_result_def)

subsection \<open>Failure of the generation stage\<close>

text \<open>
  Claim C6, amended. When the classifier has answered, the retrieval stage of the chosen
  branch has returned its update and the generation chain then raises, the result keeps
  the documents gathered by that stage and records the exception in the generation; the
  route written by the retrieval stage is not kept: the handler replaces it by \<^verbatim>\<open>error\<close>.
\<close>

theorem generation_failure_keeps_documents:
  assumes "question_router w q = Inr answer"
    and "(if datasource answer = ''wiki_search'' then wiki_search w else retrieve w)
           (empty_state\<lparr>gs_question := Some q\<rparr>) = Inr u"
    and "gs_documents u = Some docs"
    and "generation_chain w (format_context (DocList docs)) q = Inl e"
  shows "execute (build_graph w) q t0 t1 =
           [''route'' \<mapsto> PyStr ''error'', ''documents'' \<mapsto> PyDocs docs,
            ''generation'' \<mapsto> PyStr (''Error executing query: '' @ str_exc e),
            ''execution_time'' \<mapsto> PyFloat (t1 - t0)]"
proof (cases "datasource answer = ''wiki_search''")
  case True
  with assms(1) have r: "route w q = Inr ''wiki_search''"
    by (simp add: route_def)
  from True assms(2,3) have d: "docs = [case wiki w q of Inr t \<Rightarrow> Document t
                                          | Inl x \<Rightarrow> Document (wiki_placeholder x)]"
    by (auto simp: wiki_search_def get_question_def empty_state_def Let_def)
  show ?thesis
    using assms(4) unfolding d
    by (intro ext)
      (simp add: execute_def app_stream_wiki_search [OF r] Let_def apply_output_def
        initial_result_def)
next
  case False
  with assms(1) have r: "route w q = Inr (datasource answer)"
    by (simp add: route_def)
  from False assms(2,3) have d: "retriever w q = Inr docs"
    by (auto simp: retrieve_def get_question_def empty_state_def split: sum.splits)
  show ?thesis
    using assms(4)
    by (intro ext)
      (simp add: execute_def app_stream_vectorstore [OF r False] d Let_def apply_output_def
        initial_result_def)
qed

theorem generation_failure_keeps_documents_witness:
  "execute (build_graph (stub_workflow to_vectorstore failing_generation two_passages
      wiki_lookup_error)) ''What is chain of thought prompting?'' 0 4
     = [''route'' \<mapsto> PyStr ''error'',
        ''documents'' \<mapsto> PyDocs [Document ''short term memory'', Document ''long term memory''],
        ''generation'' \<mapsto> PyStr ''Error executing query: generation provider unavailable'',
        ''execution_time'' \<mapsto> PyFloat 4]"
proof -
  have h1: "question_router (stub_workflow to_vectorstore failing_generation two_passages
      wiki_lookup_error) ''What is chain of thought prompting?'' = Inr \<lparr>datasource = ''vectorstore''\<rparr>"
    by (simp add: to_vectorstore_def)
  have h2: "(if datasource \<lparr>datasource = ''vectorstore''\<rparr> = ''wiki_search''
             then wiki_search (stub_workflow to_vectorstore failing_generation two_passages
                    wiki_lookup_error)
             else retrieve (stub_workflow to_vectorstore failing_generation two_passages
                    wiki_lookup_error))
           (empty_state\<lparr>gs_question := Some ''What is chain of thought prompting?''\<rparr>)
        = Inr \<lparr>gs_question = Some ''What is chain of thought prompting?'', gs_generation = None,
               gs_documents = Some [Document ''short term memory'', Document ''long term memory''],
               gs_route = Some ''vectorstore''\<rparr>"
    by (simp add: retrieve_def get_question_def empty_state_def two_passages_def)
  have h3: "gs_documents \<lparr>gs_question = Some ''What is chain of thought prompting?'',
               gs_generation = None,
               gs_documents = Some [Document ''short term memory'', Document ''long term memory''],
               gs_route = Some ''vectorstore''\<rparr>
        = Some [Document ''short term memory'', Document ''long term memory'']"
    by simp
  have h4: "generation_chain (stub_workflow to_vectorstore failing_generation two_passages
      wiki_lookup_error)
        (format_context (DocList [Document ''short term memory'', Document ''long term memory'']))
        ''What is chain of thought prompting?'' = Inl (Exc ''generation provider unavailable'')"
    by (simp add: failing_generation_def del: format_context.simps)
  show ?thesis
    using generation_failure_keeps_documents [OF h1 h2 h3 h4, of 0 4] by simp
qed

text \<open>
  The claim as stated keeps the route of the retrieval stage; here the retrieval stage
  wrote \<^verbatim>\<open>vectorstore\<close> and the result says \<^verbatim>\<open>error\<close>.
\<close>

theorem generation_failure_overwrites_route:
  "retrieve (stub_workflow to_vectorstore failing_generation two_passages wiki_lookup_error)
     (empty_state\<lparr>gs_question := Some ''What is an agent?''\<rparr>)
     = Inr \<lparr>gs_question = Some ''What is an agent?'', gs_generation = None,
            gs_documents = Some [Document ''short term memory'', Document ''long term memory''],
            gs_route = Some ''vectorstore''\<rparr>
   \<and> execute (build_graph (stub_workflow to_vectorstore failing_generation two_passages
        wiki_lookup_error)) ''What is an agent?'' 0 1 ''route'' = Some (PyStr ''error'')
   \<and> execute (build_graph (stub_workflow to_vectorstore failing_generation two_passages
        wiki_lookup_error)) ''What is an agent?'' 0 1 ''route'' \<noteq> Some (PyStr ''vectorstore'')"
  by (simp add: retrieve_def get_question_def empty_state_def two_passages_def
      execute_def app_stream_vectorstore [where src = "''vectorstore''"] to_vectorstore_def
      failing_generation_def Let_def apply_output_def initial_result_def
      del: format_context.simps)

subsection \<open>One retrieval stage per execution\<close>





subsection \<open>Failure of the secondary provider\<close>




section \<open>Properties of the backend scaffold\<close>

subsection \<open>Validation before the handler\<close>

lemma validate_query_accepts:
  "validate_query f = Inr q \<longleftrightarrow> f = Given q \<and> 1 \<le> length q \<and> length q \<le> 2000"
  by (cases f) (auto simp: Suc_le_eq)

lemma validate_source_accepts:
  "validate_source f = Inr member \<longleftrightarrow>
     (f = Missing \<and> member = AUTO) \<or> f = Given (source_value member)"
  by (cases f; cases member) (auto simp: query_sources_def split: if_splits)

lemma source_value_range:
  "source_value member \<in> {''auto'', ''vector'', ''wikipedia'', ''web''}"
  by (cases member) simp_all

lemma validate_request_accepts:
  assumes "validate_request body = Inr request"
  shows "validate_query (raw_query body) = Inr (query request)"
    and "validate_source (raw_source body) = Inr (source request)"
  using assms
  by (auto simp: validate_request_def split: sum.splits)

lemma validate_request_rejects:
  assumes "validate_query (raw_query body) = Inl es \<or> validate_source (raw_source body) = Inl es"
    and "es \<noteq> []"
  shows "\<exists>errors. errors \<noteq> [] \<and> validate_request body = Inl errors"
  using assms
  by (auto simp: validate_request_def split: sum.splits)

lemma validate_source_unknown:
  assumes "s \<notin> {''auto'', ''vector'', ''wikipedia'', ''web''}"
  shows "validate_source (Given s) = Inl [ValidationError ''source'' ''enum'']"
  using assms by (auto simp: query_sources_def)

text \<open>
  Claim C9. A body is accepted only if its query is present with a length from 1 to 2000
  and its source is absent (the default \<^verbatim>\<open>auto\<close>) or one of \<^verbatim>\<open>auto\<close>, \<^verbatim>\<open>vector\<close>,
  \<^verbatim>\<open>wikipedia\<close>, \<^verbatim>\<open>web\<close>. A body with an empty query, with a query of more than 2000
  characters or with an unknown source is answered with the validation errors, whatever
  the environment, the UUID and the clock are, and the cache of the settings is left as
  it was: the handler has not run.
\<close>

theorem request_validation:
  "(validate_request body = Inr request \<longrightarrow>
      raw_query body = Given (query request)
      \<and> 1 \<le> length (query request) \<and> length (query request) \<le> 2000
      \<and> (raw_source body = Missing \<and> source request = AUTO
           \<or> raw_source body = Given (source_value (source request)))
      \<and> source_value (source request) \<in> {''auto'', ''vector'', ''wikipedia'', ''web''})
   \<and> (raw_query body = Given []
        \<or> (\<exists>s. raw_query body = Given s \<and> 2000 < length s)
        \<or> (\<exists>s. raw_source body = Given s \<and> s \<notin> {''auto'', ''vector'', ''wikipedia'', ''web''})
       \<longrightarrow> (\<exists>errors. errors \<noteq> []
              \<and> post_query body env uuid_hex t0 t1 cache = (Unprocessable errors, cache)))"
proof (intro conjI impI)
  assume ok: "validate_request body = Inr request"
  from validate_request_accepts(1) [OF ok]
  show "raw_query body = Given (query request)"
    and "1 \<le> length (query request)" and "length (query request) \<le> 2000"
    by (simp_all add: validate_query_accepts)
  from validate_request_accepts(2) [OF ok]
  show "raw_source body = Missing \<and> source request = AUTO
           \<or> raw_source body = Given (source_value (source request))"
    by (simp add: validate_source_accepts)
  show "source_value (source request) \<in> {''auto'', ''vector'', ''wikipedia'', ''web''}"
    by (rule source_value_range)
next
  assume bad: "raw_query body = Given []
        \<or> (\<exists>s. raw_query body = Given s \<and> 2000 < length s)
        \<or> (\<exists>s. raw_source body = Given s \<and> s \<notin> {''auto'', ''vector'', ''wikipedia'', ''web''})"
  from bad consider
      (empty) "raw_query body = Given []"
    | (long) s where "raw_query body = Given s" "2000 < length s"
    | (unknown) s where "raw_source body = Given s"
        "s \<notin> {''auto'', ''vector'', ''wikipedia'', ''web''}"
    by blast
  then have "\<exists>errors. errors \<noteq> [] \<and> validate_request body = Inl errors"
  proof cases
    case empty
    then have "validate_query (raw_query body) = Inl [ValidationError ''query'' ''string_too_short'']"
      by simp
    then show ?thesis
      by (intro validate_request_rejects [where es = "[ValidationError ''query'' ''string_too_short'']"])
        simp_all
  next
    case long
    then have "validate_query (raw_query body) = Inl [ValidationError ''query'' ''string_too_long'']"
      by auto
    then show ?thesis
      by (intro validate_request_rejects [where es = "[ValidationError ''query'' ''string_too_long'']"])
        simp_all
  next
    case unknown
    then have "validate_source (raw_source body) = Inl [ValidationError ''source'' ''enum'']"
      using validate_source_unknown [of s] by simp
    then show ?thesis
      by (intro validate_request_rejects [where es = "[ValidationError ''source'' ''enum'']"])
        simp_all
  qed
  then obtain errors where e: "errors \<noteq> []" "validate_request body = Inl errors"
    by (elim exE conjE)
  have "post_query body env uuid_hex t0 t1 cache = (Unprocessable errors, cache)"
    by (simp add: post_query_def e(2))
  with e(1) show "\<exists>errors. errors \<noteq> []
              \<and> post_query body env uuid_hex t0 t1 cache = (Unprocessable errors, cache)"
    by (intro exI conjI)
qed

theorem request_validation_witness:
  "post_query (body_of (Given []) Missing) bare_world ''0123456789abcdef'' 0 0 None
     = (Unprocessable [ValidationError ''query'' ''string_too_short''], None)
   \<and> validate_request (body_of (Given ''Test query'') (Given ''vector'')) = Inr (request_to VECTOR)
   \<and> length (query (request_to VECTOR)) \<le> 2000"
proof -
  have a: "validate_request (body_of (Given ''Test query'') (Given ''vector''))
      = Inr (request_to VECTOR)"
    by (simp add: validate_request_def body_of_def request_to_def query_sources_def)
  have b: "raw_query (body_of (Given []) Missing) = Given []"
    by (simp add: body_of_def)
  have v: "validate_request (body_of (Given []) Missing)
      = Inl [ValidationError ''query'' ''string_too_short'']"
    by (simp add: validate_request_def body_of_def)
  have p: "post_query (body_of (Given []) Missing) bare_world ''0123456789abcdef'' 0 0 None
     = (Unprocessable [ValidationError ''query'' ''string_too_short''], None)"
    by (simp add: post_query_def v)
  note t = request_validation [of "body_of (Given ''Test query'') (Given ''vector'')"
      "request_to VECTOR" bare_world "''0123456789abcdef''" 0 0 None]
  from t a have len: "length (query (request_to VECTOR)) \<le> 2000"
    by (elim conjE) (erule impE, assumption, elim conjE, assumption)
  from p a len show ?thesis
    by (intro conjI)
qed

subsection \<open>The cached settings\<close>






subsection \<open>The mock answer of the query handler\<close>

lemma source_value_inject:
  "source_value a = source_value b \<longleftrightarrow> a = b"
  by (cases a; cases b) simp_all

lemma execute_query_answer:
  assumes "execute_query request env uuid_hex t0 t1 cache = (Inr (answer, warnings), cache')"
  shows "response answer = ''This is a deterministic mock answer from IMSKOS scaffold.''"
    and "sources answer = sources MOCK_RESPONSE"
    and "tokens (metrics answer) = 34"
    and "routing_reason answer =
           ''mock: scaffold route to '' @ source_value (source request) @ '' (demo)''"
    and "response_id answer = ''query-'' @ take 8 uuid_hex"
    and "elapsed_ms (metrics answer) = py_int ((t1 - t0) * 1000) + 75"
  using assms
  by (auto simp: execute_query_def Let_def MOCK_RESPONSE_def split: prod.splits sum.splits)

text \<open>
  Claim C8, amended. Whatever the requests are, two answers of the handler carry the same
  response text and the same sources, those of \<^verbatim>\<open>MOCK_RESPONSE\<close>, and the same token
  count. The routing explanation is not fixed: it names the source of the request, so two
  answers have the same explanation exactly when the requests have the same source. The
  query text, the user and the options of the request have no effect at all: with the same
  environment, UUID, clock and cache, two requests of the same source get the same result.
\<close>

theorem execute_query_input_independence:
  "(execute_query request1 env1 uuid1 a1 b1 cache1 = (Inr (answer1, warnings1), cache1')
    \<and> execute_query request2 env2 uuid2 a2 b2 cache2 = (Inr (answer2, warnings2), cache2')
    \<longrightarrow> response answer1 = response answer2
        \<and> response answer1 = ''This is a deterministic mock answer from IMSKOS scaffold.''
        \<and> sources answer1 = sources answer2
        \<and> sources answer1 = sources MOCK_RESPONSE
        \<and> tokens (metrics answer1) = tokens (metrics answer2)
        \<and> routing_reason answer1 =
             ''mock: scaffold route to '' @ source_value (source request1) @ '' (demo)''
        \<and> (routing_reason answer1 = routing_reason answer2
             \<longleftrightarrow> source request1 = source request2))
   \<and> (source request1 = source request2
        \<longrightarrow> execute_query request1 env uuid_hex t0 t1 cache
            = execute_query request2 env uuid_hex t0 t1 cache)"
proof (intro conjI impI)
  assume same: "source request1 = source request2"
  show "execute_query request1 env uuid_hex t0 t1 cache
            = execute_query request2 env uuid_hex t0 t1 cache"
    unfolding execute_query_def same by (rule refl)
next
  assume both: "execute_query request1 env1 uuid1 a1 b1 cache1 = (Inr (answer1, warnings1), cache1')
    \<and> execute_query request2 env2 uuid2 a2 b2 cache2 = (Inr (answer2, warnings2), cache2')"
  note one = execute_query_answer [OF conjunct1 [OF both]]
  note two = execute_query_answer [OF conjunct2 [OF both]]
  show "response answer1 = response answer2"
    by (simp add: one(1) two(1))
  show "response answer1 = ''This is a deterministic mock answer from IMSKOS scaffold.''"
    by (rule one(1))
  show "sources answer1 = sources answer2"
    by (simp add: one(2) two(2))
  show "sources answer1 = sources MOCK_RESPONSE"
    by (rule one(2))
  show "tokens (metrics answer1) = tokens (metrics answer2)"
    by (simp add: one(3) two(3))
  show "routing_reason answer1 =
             ''mock: scaffold route to '' @ source_value (source request1) @ '' (demo)''"
    by (rule one(4))
  show "routing_reason answer1 = routing_reason answer2
             \<longleftrightarrow> source request1 = source request2"
    by (simp add: one(4) two(4) source_value_inject)
qed

lemma execute_query_bare_world:
  "execute_query (request_to s) bare_world ''0123456789abcdef'' 0 0 None =
     (Inr (\<lparr>response_id = ''query-01234567'',
             response = ''This is a deterministic mock answer from IMSKOS scaffold.'',
             sources = sources MOCK_RESPONSE,
             metrics = \<lparr>elapsed_ms = 75, tokens = 34, embedding_ms = Some 15,
                        retrieval_ms = Some 35, llm_ms = Some 25\<rparr>,
             routing_reason = ''mock: scaffold route to '' @ source_value s @ '' (demo)''\<rparr>,
           log_mock_mode_warnings default_settings bare_world),
      Some default_settings)"
  by (simp add: execute_query_def get_settings_def bare_world_def request_to_def Let_def
      MOCK_RESPONSE_def py_int_def)

theorem execute_query_input_independence_witness:
  "routing_reason_of (execute_query (request_to WEB) bare_world ''0123456789abcdef'' 0 0 None)
     = Some ''mock: scaffold route to web (demo)''
   \<and> execute_query (request_to WEB) bare_world ''0123456789abcdef'' 0 0 None
     = execute_query (request_to WEB\<lparr>query := ''Who is Elon Musk?'', user_id := Some ''user-123''\<rparr>)
         bare_world ''0123456789abcdef'' 0 0 None"
proof -
  have src: "source (request_to WEB)
      = source (request_to WEB\<lparr>query := ''Who is Elon Musk?'', user_id := Some ''user-123''\<rparr>)"
    by simp
  have same: "execute_query (request_to WEB) bare_world ''0123456789abcdef'' 0 0 None
     = execute_query (request_to WEB\<lparr>query := ''Who is Elon Musk?'', user_id := Some ''user-123''\<rparr>)
         bare_world ''0123456789abcdef'' 0 0 None"
    using execute_query_input_independence [of "request_to WEB" _ _ _ _ _ _ _ _
        "request_to WEB\<lparr>query := ''Who is Elon Musk?'', user_id := Some ''user-123''\<rparr>"
        _ _ _ _ _ _ _ _ bare_world "''0123456789abcdef''" 0 0 None, THEN conjunct2] src
    by (rule mp)
  have "routing_reason_of (execute_query (request_to WEB) bare_world ''0123456789abcdef'' 0 0 None)
     = Some ''mock: scaffold route to web (demo)''"
    by (simp add: execute_query_bare_world)
  with same show ?thesis
    by (intro conjI)
qed

text \<open>
  The claim as stated gives every request the same routing explanation; a request for the
  source \<^verbatim>\<open>auto\<close> and a request for the source \<^verbatim>\<open>vector\<close>, alike in everything else,
  get different ones.
\<close>

theorem routing_reason_depends_on_source:
  "routing_reason_of (execute_query (request_to AUTO) bare_world ''0123456789abcdef'' 0 0 None)
     = Some ''mock: scaffold route to auto (demo)''
   \<and> routing_reason_of (execute_query (request_to VECTOR) bare_world ''0123456789abcdef'' 0 0 None)
     = Some ''mock: scaffold route to vector (demo)''
   \<and> routing_reason_of (execute_query (request_to AUTO) bare_world ''0123456789abcdef'' 0 0 None)
     \<noteq> routing_reason_of (execute_query (request_to VECTOR) bare_world ''0123456789abcdef'' 0 0 None)"
  by (simp add: execute_query_bare_world)

end
